theory Spec2Isabelle
  imports Complex_Main
begin

section \<open>Numbers and containers\<close>

text \<open>
  The program is TypeScript; every amount, price and score is a JavaScript Number, a
  binary64 value.  The decisions of the program are embedded over \<^typ>\<open>real\<close> with
  \<open>+\<close>, \<open>-\<close>, \<open>*\<close> exact; a division by zero is written out (\<open>js_div\<close> below),
  because HOL's \<open>x / 0 = 0\<close> is not what JavaScript computes.  The running sums of the
  ledger, where rounding decides whether two of them are equal, are embedded a second
  time with every \<open>+\<close> and \<open>-\<close> rounded (the functions with the suffix \<open>_r\<close> below).
  NaN and overflow to Infinity are outside both.

  A \<open>Record<string, number>\<close> and a \<open>Map<string, _>\<close> are association lists in
  insertion order with unique keys: \<open>assign\<close> is the store \<open>m[k] = v\<close> /
  \<open>m.set(k, v)\<close>, which overwrites an existing key in place and appends a new one.
\<close>

fun assign :: "'k \<Rightarrow> 'v \<Rightarrow> ('k \<times> 'v) list \<Rightarrow> ('k \<times> 'v) list" where
  "assign k v [] = [(k, v)]"
| "assign k v ((k', v') # kvs) =
     (if k = k' then (k, v) # kvs else (k', v') # assign k v kvs)"

text \<open>
  \<open>byService\<close> is a plain object, so \<open>byService[k]\<close> for a name \<open>k\<close> it does not hold
  itself reads the member of that name inherited from \<open>Object.prototype\<close>, when there is
  one: a function, or for \<open>__proto__\<close> the prototype object.  Adding a Number to such a
  member, or to a string, yields a string.  A value of \<open>byService\<close> is therefore a Number
  or a string; of a string only that it is one is kept (it is never empty: it ends
  with the digits of the amount).
\<close>

datatype jsval = Num real | Text

definition inheritedNames :: "string list" where
  "inheritedNames =
     [''constructor'', ''__defineGetter__'', ''__defineSetter__'', ''hasOwnProperty'',
      ''__lookupGetter__'', ''__lookupSetter__'', ''isPrototypeOf'',
      ''propertyIsEnumerable'', ''toString'', ''valueOf'', ''__proto__'',
      ''toLocaleString'']"

text \<open>
  \<open>(byService[k] || 0) + amount\<close>: a missing key of no inherited name reads
  \<open>undefined\<close>, and a stored \<open>0\<close> is falsy too.
\<close>

definition credited :: "(string \<times> jsval) list \<Rightarrow> string \<Rightarrow> real \<Rightarrow> jsval" where
  "credited m k amount =
     (case map_of m k of
        Some (Num v) \<Rightarrow> Num ((if v \<noteq> 0 then v else 0) + amount)
      | Some Text \<Rightarrow> Text
      | None \<Rightarrow> (if k \<in> set inheritedNames then Text else Num (0 + amount)))"

text \<open>
  \<open>byService[k] = v\<close>: the store, except that assigning a Number or a string to
  \<open>__proto__\<close> runs the inherited setter, which ignores it, and stores nothing.
\<close>

definition store :: "string \<Rightarrow> jsval \<Rightarrow> (string \<times> jsval) list \<Rightarrow> (string \<times> jsval) list" where
  "store k v m = (if k = ''__proto__'' then m else assign k v m)"

section \<open>The revenue manager (class \<open>RevenueManager\<close>, src/agent/revenue-manager.ts)\<close>

record AgentEarnings =
  total' :: real
  byService :: "(string \<times> jsval) list"
  reinvested :: real
  available :: real

datatype agent_status = active | inactive | upgrading

record SubAgent =
  id' :: string
  parentId :: string
  role :: string
  balance :: real
  status :: agent_status
  createdAt :: nat
  walletAddress :: "string option"
  fundingTxHash :: "string option"

record RevenueManager =
  earnings :: AgentEarnings
  reinvestmentThreshold :: real
  subAgents :: "(string \<times> SubAgent) list"

text \<open>
  What one call of \<open>spawnSubAgent\<close> takes from its surroundings: the identifier built from
  \<open>Date.now()\<close> and \<open>Math.random()\<close>, the address of the generated key pair, the
  reference \<open>fundSubAgentWallet\<close> returns (the transfer's, or the simulated one when the
  transfer fails: it never throws) and the clock.
\<close>

record SpawnEnv =
  freshId :: string
  walletOf :: string
  fundingRef :: string
  clock :: nat

text \<open>
  The constructor: an empty ledger, no sub-agents, and the threshold given, \<open>1.0\<close> when
  the argument is left out.
\<close>

definition newRevenueManager :: "real option \<Rightarrow> RevenueManager" where
  "newRevenueManager reinvestmentThresholdArg =
     \<lparr>earnings = \<lparr>total' = 0, byService = [], reinvested = 0, available = 0\<rparr>,
      reinvestmentThreshold =
        (case reinvestmentThresholdArg of None \<Rightarrow> 1.0 | Some threshold \<Rightarrow> threshold),
      subAgents = []\<rparr>"

definition spawnSubAgent :: "SpawnEnv \<Rightarrow> string \<Rightarrow> real \<Rightarrow> RevenueManager \<Rightarrow> SubAgent \<times> RevenueManager" where
  "spawnSubAgent env r cost m =
     (let subAgent = \<lparr>id' = freshId env, parentId = ''main'', role = r, balance = cost,
                       status = active, createdAt = clock env,
                       walletAddress = Some (walletOf env),
                       fundingTxHash = Some (fundingRef env)\<rparr>
      in (subAgent, m\<lparr>subAgents := assign (freshId env) subAgent (subAgents m)\<rparr>))"

text \<open>\<open>upgradeAgent\<close> only logs.\<close>

definition upgradeAgent :: "real \<Rightarrow> RevenueManager \<Rightarrow> RevenueManager" where
  "upgradeAgent cost m = m"

definition shouldUpgrade :: "RevenueManager \<Rightarrow> bool" where
  "shouldUpgrade m \<longleftrightarrow> length (subAgents m) < 2 \<or> total' (earnings m) > 10"

text \<open>
  The two statements that close either branch: \<open>available -= cost\<close> and
  \<open>reinvested += cost\<close>.
\<close>

definition debit :: "real \<Rightarrow> RevenueManager \<Rightarrow> RevenueManager" where
  "debit cost m =
     m\<lparr>earnings := (earnings m)\<lparr>available := available (earnings m) - cost,
                                 reinvested := reinvested (earnings m) + cost\<rparr>\<rparr>"

definition considerReinvestment :: "SpawnEnv \<Rightarrow> RevenueManager \<Rightarrow> RevenueManager" where
  "considerReinvestment env m =
     (if available (earnings m) < reinvestmentThreshold m then m
      else
        let upgradeCost = 0.5;
            spawnCost = 0.3;
            canUpgrade = (available (earnings m) \<ge> upgradeCost);
            canSpawn = (available (earnings m) \<ge> spawnCost)
        in if canSpawn \<and> length (subAgents m) < 5
           then debit spawnCost (snd (spawnSubAgent env ''data-collector'' spawnCost m))
           else if canUpgrade \<and> shouldUpgrade m
           then debit upgradeCost (upgradeAgent upgradeCost m)
           else m)"

text \<open>The three statements that open \<open>recordPayment\<close>.\<close>

definition credit :: "string \<Rightarrow> real \<Rightarrow> RevenueManager \<Rightarrow> RevenueManager" where
  "credit serviceId amount m =
     (let e = earnings m;
          e1 = e\<lparr>total' := total' e + amount\<rparr>;
          e2 = e1\<lparr>byService := store serviceId (credited (byService e1) serviceId amount)
                                   (byService e1)\<rparr>;
          e3 = e2\<lparr>available := available e2 + amount\<rparr>
      in m\<lparr>earnings := e3\<rparr>)"

definition recordPayment :: "SpawnEnv \<Rightarrow> string \<Rightarrow> real \<Rightarrow> RevenueManager \<Rightarrow> RevenueManager" where
  "recordPayment env serviceId amount m =
     (let m' = credit serviceId amount m
      in if available (earnings m') \<ge> reinvestmentThreshold m'
         then considerReinvestment env m'
         else m')"

text \<open>
  A history of the manager: the calls made on it one after the other, each awaited
  before the next, each with what its possible spawn takes from the surroundings.
\<close>

datatype call = RecordPayment SpawnEnv string real | ConsiderReinvestment SpawnEnv

fun perform :: "call \<Rightarrow> RevenueManager \<Rightarrow> RevenueManager" where
  "perform (RecordPayment env serviceId amount) m = recordPayment env serviceId amount m"
| "perform (ConsiderReinvestment env) m = considerReinvestment env m"

fun run :: "call list \<Rightarrow> RevenueManager \<Rightarrow> RevenueManager" where
  "run [] m = m"
| "run (c # cs) m = run cs (perform c m)"

section \<open>The ledger in binary64\<close>

text \<open>
  Rounding to the nearest binary64 value, ties to the even significand, for a real
  whose magnitude is in the range of the normal binary64 values: \<open>exponent\<close> finds \<open>e\<close>
  with \<open>2^e \<le> |x| < 2^(e+1)\<close> (its first argument bounds the search), \<open>ulp e\<close> is the
  spacing \<open>2^(e-52)\<close> of the values there, and \<open>rne\<close> rounds to the nearest integer,
  a tie to the even one.  Overflow and the subnormal values are not modelled.
\<close>

definition rne :: "real \<Rightarrow> int" where
  "rne x =
     (let f = \<lfloor>x\<rfloor>;
          r = x - of_int f
      in if r < 1 / 2 then f
         else if r > 1 / 2 then f + 1
         else if even f then f else f + 1)"

fun exponent :: "nat \<Rightarrow> real \<Rightarrow> int" where
  "exponent 0 x = 0"
| "exponent (Suc fuel) x =
     (if 2 \<le> \<bar>x\<bar> then exponent fuel (x / 2) + 1
      else if \<bar>x\<bar> < 1 then exponent fuel (x * 2) - 1
      else 0)"

definition ulp :: "int \<Rightarrow> real" where
  "ulp e = (if 52 \<le> e then 2 ^ nat (e - 52) else 1 / 2 ^ nat (52 - e))"

definition binary64 :: "real \<Rightarrow> real" where
  "binary64 x =
     (if x = 0 then 0
      else let q = ulp (exponent 1100 x) in of_int (rne (x / q)) * q)"

text \<open>
  The ledger's functions once more, with the result of every \<open>+\<close> and \<open>-\<close> and every
  decimal literal passed through a rounding function \<open>rnd\<close>: with \<open>binary64\<close> for
  \<open>rnd\<close> they compute what the program computes.  (\<open>0\<close>, \<open>5\<close>, \<open>2\<close> and \<open>10\<close> are binary64
  values as they stand.)  \<open>spawnSubAgent\<close>, \<open>upgradeAgent\<close> and \<open>shouldUpgrade\<close> do no
  arithmetic and are the ones above.
\<close>

definition credited_r :: "(real \<Rightarrow> real) \<Rightarrow> (string \<times> jsval) list \<Rightarrow> string \<Rightarrow> real \<Rightarrow> jsval" where
  "credited_r rnd m k amount =
     (case map_of m k of
        Some (Num v) \<Rightarrow> Num (rnd ((if v \<noteq> 0 then v else 0) + amount))
      | Some Text \<Rightarrow> Text
      | None \<Rightarrow> (if k \<in> set inheritedNames then Text else Num (rnd (0 + amount))))"

definition credit_r :: "(real \<Rightarrow> real) \<Rightarrow> string \<Rightarrow> real \<Rightarrow> RevenueManager \<Rightarrow> RevenueManager" where
  "credit_r rnd serviceId amount m =
     (let e = earnings m;
          e1 = e\<lparr>total' := rnd (total' e + amount)\<rparr>;
          e2 = e1\<lparr>byService := store serviceId (credited_r rnd (byService e1) serviceId amount)
                                   (byService e1)\<rparr>;
          e3 = e2\<lparr>available := rnd (available e2 + amount)\<rparr>
      in m\<lparr>earnings := e3\<rparr>)"

definition debit_r :: "(real \<Rightarrow> real) \<Rightarrow> real \<Rightarrow> RevenueManager \<Rightarrow> RevenueManager" where
  "debit_r rnd cost m =
     m\<lparr>earnings := (earnings m)\<lparr>available := rnd (available (earnings m) - cost),
                                 reinvested := rnd (reinvested (earnings m) + cost)\<rparr>\<rparr>"

definition considerReinvestment_r :: "(real \<Rightarrow> real) \<Rightarrow> SpawnEnv \<Rightarrow> RevenueManager \<Rightarrow> RevenueManager" where
  "considerReinvestment_r rnd env m =
     (if available (earnings m) < reinvestmentThreshold m then m
      else
        let upgradeCost = rnd 0.5;
            spawnCost = rnd 0.3;
            canUpgrade = (available (earnings m) \<ge> upgradeCost);
            canSpawn = (available (earnings m) \<ge> spawnCost)
        in if canSpawn \<and> length (subAgents m) < 5
           then debit_r rnd spawnCost (snd (spawnSubAgent env ''data-collector'' spawnCost m))
           else if canUpgrade \<and> shouldUpgrade m
           then debit_r rnd upgradeCost (upgradeAgent upgradeCost m)
           else m)"

definition recordPayment_r :: "(real \<Rightarrow> real) \<Rightarrow> SpawnEnv \<Rightarrow> string \<Rightarrow> real \<Rightarrow> RevenueManager \<Rightarrow> RevenueManager" where
  "recordPayment_r rnd env serviceId amount m =
     (let m' = credit_r rnd serviceId amount m
      in if available (earnings m') \<ge> reinvestmentThreshold m'
         then considerReinvestment_r rnd env m'
         else m')"

fun perform_r :: "(real \<Rightarrow> real) \<Rightarrow> call \<Rightarrow> RevenueManager \<Rightarrow> RevenueManager" where
  "perform_r rnd (RecordPayment env serviceId amount) m = recordPayment_r rnd env serviceId amount m"
| "perform_r rnd (ConsiderReinvestment env) m = considerReinvestment_r rnd env m"

fun run_r :: "(real \<Rightarrow> real) \<Rightarrow> call list \<Rightarrow> RevenueManager \<Rightarrow> RevenueManager" where
  "run_r rnd [] m = m"
| "run_r rnd (c # cs) m = run_r rnd cs (perform_r rnd c m)"





section \<open>Division by zero\<close>

text \<open>
  A quotient whose divisor may be \<open>0\<close>: JavaScript yields \<open>Infinity\<close>, \<open>-Infinity\<close> or
  \<open>NaN\<close> there, and every comparison with \<open>NaN\<close> is false.
\<close>

datatype jsnum = Fin real | PosInf | NegInf | NaN

definition js_div :: "real \<Rightarrow> real \<Rightarrow> jsnum" where
  "js_div x y =
     (if y \<noteq> 0 then Fin (x / y)
      else if x > 0 then PosInf
      else if x < 0 then NegInf
      else NaN)"

fun js_times :: "jsnum \<Rightarrow> real \<Rightarrow> jsnum" where
  "js_times (Fin x) c = Fin (x * c)"
| "js_times PosInf c = (if c > 0 then PosInf else if c < 0 then NegInf else NaN)"
| "js_times NegInf c = (if c > 0 then NegInf else if c < 0 then PosInf else NaN)"
| "js_times NaN c = NaN"

fun js_gt :: "jsnum \<Rightarrow> real \<Rightarrow> bool" where
  "js_gt (Fin x) c \<longleftrightarrow> x > c"
| "js_gt PosInf c \<longleftrightarrow> True"
| "js_gt NegInf c \<longleftrightarrow> False"
| "js_gt NaN c \<longleftrightarrow> False"

fun js_lt :: "jsnum \<Rightarrow> real \<Rightarrow> bool" where
  "js_lt (Fin x) c \<longleftrightarrow> x < c"
| "js_lt PosInf c \<longleftrightarrow> False"
| "js_lt NegInf c \<longleftrightarrow> True"
| "js_lt NaN c \<longleftrightarrow> False"

section \<open>The AI engine (class \<open>AIEngine\<close>, src/unnamed/part_001)\<close>

record TradingSignalInput =
  price :: real
  volume24h :: real
  priceChange24h :: real
  liquidity :: real
  sentiment :: real

datatype action = buy | sell | hold

record TradingSignal =
  action_s :: action
  token_s :: string
  confidence :: real
  price_s :: real
  reasoning :: string

text \<open>The table \<open>modelWeights\<close>, a field of the engine.\<close>

record ModelWeights =
  price_w :: real
  volume_w :: real
  sentiment_w :: real
  momentum_w :: real
  liquidity_w :: real

definition modelWeights :: ModelWeights where
  "modelWeights =
     \<lparr>price_w = 0.3, volume_w = 0.25, sentiment_w = 0.2, momentum_w = 0.15, liquidity_w = 0.1\<rparr>"

text \<open>
  \<open>calculateSignalScore\<close>: the value of \<open>score\<close> after the four additions
  (\<open>weightedScore\<close>), then the clamp to \<open>[-1, 1]\<close>.  The table is a parameter, so that
  what the function reads of it can be stated.
\<close>

definition weightedScore :: "ModelWeights \<Rightarrow> TradingSignalInput \<Rightarrow> real" where
  "weightedScore w input =
     (let score0 = 0;
          priceMomentum = priceChange24h input / 100;
          score1 = score0 + priceMomentum * price_w w;
          volumeScore = min (volume24h input / 1000000) 1;
          score2 = score1 + volumeScore * volume_w w;
          score3 = score2 + sentiment input * sentiment_w w;
          liquidityScore = min (liquidity input / 10000000) 1;
          score4 = score3 + liquidityScore * liquidity_w w
      in score4)"

definition calculateSignalScoreWith :: "ModelWeights \<Rightarrow> TradingSignalInput \<Rightarrow> real" where
  "calculateSignalScoreWith w input = max (- 1) (min 1 (weightedScore w input))"

definition calculateSignalScore :: "TradingSignalInput \<Rightarrow> real" where
  "calculateSignalScore input = calculateSignalScoreWith modelWeights input"

definition determineAction :: "real \<Rightarrow> action" where
  "determineAction score =
     (if score > 0.3 then buy else if score < - 0.3 then sell else hold)"

text \<open>
  How a Number is printed (\<open>toString\<close>, \<open>toFixed(2)\<close>) is left to the caller of the
  model.
\<close>

record Formatting =
  numToString :: "real \<Rightarrow> string"
  toFixed2 :: "real \<Rightarrow> string"

fun upperName :: "action \<Rightarrow> string" where
  "upperName buy = ''BUY''"
| "upperName sell = ''SELL''"
| "upperName hold = ''HOLD''"

fun join :: "string \<Rightarrow> string list \<Rightarrow> string" where
  "join sep [] = []"
| "join sep [x] = x"
| "join sep (x # y # ys) = x @ sep @ join sep (y # ys)"

definition generateReasoning :: "Formatting \<Rightarrow> TradingSignalInput \<Rightarrow> action \<Rightarrow> string" where
  "generateReasoning fmt input a =
     (let f1 = (if priceChange24h input > 0
                then [''Price up '' @ toFixed2 fmt (priceChange24h input) @ ''%'']
                else if priceChange24h input < 0
                then [''Price down '' @ toFixed2 fmt \<bar>priceChange24h input\<bar> @ ''%'']
                else []);
          f2 = (if volume24h input > 1000000 then f1 @ [''High volume''] else f1);
          factors = (if sentiment input > 0.5 then f2 @ [''Positive sentiment'']
                     else if sentiment input < - 0.5 then f2 @ [''Negative sentiment'']
                     else f2)
      in upperName a @ '': '' @ join '', '' factors)"

definition generateTradingSignals :: "Formatting \<Rightarrow> TradingSignalInput \<Rightarrow> TradingSignal list" where
  "generateTradingSignals fmt input =
     (let score = calculateSignalScore input;
          a = determineAction score;
          primarySignal = \<lparr>action_s = a, token_s = numToString fmt (price input),
                           confidence = \<bar>score\<bar>, price_s = price input,
                           reasoning = generateReasoning fmt input a\<rparr>;
          signals = [primarySignal]
      in if \<bar>score\<bar> < 0.7 \<and> \<bar>score\<bar> > 0.3
         then signals @ [primarySignal\<lparr>action_s := hold, confidence := 0.5,
                 reasoning := ''Market conditions are unclear, holding recommended''\<rparr>]
         else signals)"

text \<open>
  \<open>assessArbitrageRisk\<close> takes \<open>{token, dexA, dexB, priceDiff}\<close> and reads only
  \<open>priceDiff\<close>.
\<close>

definition assessArbitrageRisk :: "string \<Rightarrow> string \<Rightarrow> string \<Rightarrow> real \<Rightarrow> real" where
  "assessArbitrageRisk tok a b diff =
     (let baseRisk = 0.3;
          liquidityRisk = min (diff / 10) 0.4;
          executionRisk = 0.2
      in min (baseRisk + liquidityRisk + executionRisk) 1.0)"

section \<open>The trading strategy service (src/services/trading-strategy.service.ts)\<close>

record ArbitrageOpportunity =
  token :: string
  dexA :: string
  dexB :: string
  priceDiff :: real
  profitEstimate :: real
  risk :: real

definition dexes :: "string list" where
  "dexes = [''jupiter'', ''raydium'', ''orca'']"

text \<open>
  \<open>OracleService.getDEXPrice(token, dex)\<close> never throws (it catches and returns \<open>0\<close>);
  what it returns depends on the price service, its cache and \<open>Math.random\<close>.  In the
  model it is a parameter \<open>gp\<close> that maps a state \<open>'o\<close> of those surroundings to the
  price and the next state, so that two calls may answer differently.
\<close>

type_synonym 'o getDEXPrice = "string \<Rightarrow> string \<Rightarrow> 'o \<Rightarrow> real \<times> 'o"

text \<open>The first inner loop: \<open>prices[dex] = price\<close> for every venue with \<open>price > 0\<close>.\<close>

fun fetchPrices ::
  "'o getDEXPrice \<Rightarrow> string \<Rightarrow> string list \<Rightarrow> (string \<times> real) list \<Rightarrow> 'o \<Rightarrow> (string \<times> real) list \<times> 'o" where
  "fetchPrices gp tok [] prices s = (prices, s)"
| "fetchPrices gp tok (dex # rest) prices s =
     (case gp tok dex s of
        (p, s') \<Rightarrow> fetchPrices gp tok rest (if p > 0 then assign dex p prices else prices) s')"

text \<open>\<open>(priceDiff / avgPrice) * 100\<close>.\<close>

definition priceDiffPercent :: "real \<Rightarrow> real \<Rightarrow> jsnum" where
  "priceDiffPercent priceA priceB =
     (let diff = \<bar>priceA - priceB\<bar>;
          avgPrice = (priceA + priceB) / 2
      in js_times (js_div diff avgPrice) 100)"

text \<open>
  The body of the pair loops, for one pair of venue names: what it pushes.  A name
  without an entry reads \<open>undefined\<close>; \<open>if (priceA && priceB)\<close> takes \<open>undefined\<close>
  and \<open>0\<close> as false.
\<close>

definition considerPair :: "string \<Rightarrow> (string \<times> real) list \<Rightarrow> string \<Rightarrow> string \<Rightarrow> ArbitrageOpportunity list" where
  "considerPair tok prices a b =
     (case map_of prices a of
        None \<Rightarrow> []
      | Some priceA \<Rightarrow>
     (case map_of prices b of
        None \<Rightarrow> []
      | Some priceB \<Rightarrow>
          if priceA \<noteq> 0 \<and> priceB \<noteq> 0
          then
            let diff = \<bar>priceA - priceB\<bar>
            in if js_gt (priceDiffPercent priceA priceB) 0.5
               then [\<lparr>token = tok, dexA = a, dexB = b, priceDiff = diff,
                      profitEstimate = diff * 0.997,
                      risk = assessArbitrageRisk tok a b diff\<rparr>]
               else []
          else []))"

text \<open>The loop on \<open>j\<close> from \<open>i + 1\<close>, and the loop on \<open>i\<close>, over \<open>Object.keys(prices)\<close>.\<close>

fun pairLoop :: "string \<Rightarrow> (string \<times> real) list \<Rightarrow> string \<Rightarrow> string list \<Rightarrow> ArbitrageOpportunity list" where
  "pairLoop tok prices a [] = []"
| "pairLoop tok prices a (b # rest) = considerPair tok prices a b @ pairLoop tok prices a rest"

fun scanLoop :: "string \<Rightarrow> (string \<times> real) list \<Rightarrow> string list \<Rightarrow> ArbitrageOpportunity list" where
  "scanLoop tok prices [] = []"
| "scanLoop tok prices (a # rest) = pairLoop tok prices a rest @ scanLoop tok prices rest"

fun tokenLoop ::
  "'o getDEXPrice \<Rightarrow> string list \<Rightarrow> ArbitrageOpportunity list \<Rightarrow> 'o \<Rightarrow> ArbitrageOpportunity list \<times> 'o" where
  "tokenLoop gp [] opportunities s = (opportunities, s)"
| "tokenLoop gp (tok # rest) opportunities s =
     (case fetchPrices gp tok dexes [] s of
        (prices, s') \<Rightarrow>
          tokenLoop gp rest (opportunities @ scanLoop tok prices (map fst prices)) s')"

text \<open>
  \<open>Array.prototype.sort\<close> with the comparator \<open>b.profitEstimate - a.profitEstimate\<close> is
  the stable sort by falling \<open>profitEstimate\<close>; \<open>sort_key\<close> is a stable sort by rising
  key.
\<close>

definition findArbitrageOpportunities ::
  "'o getDEXPrice \<Rightarrow> string list \<Rightarrow> 'o \<Rightarrow> ArbitrageOpportunity list \<times> 'o" where
  "findArbitrageOpportunities gp tokens s =
     (case tokenLoop gp tokens [] s of
        (opportunities, s') \<Rightarrow> (sort_key (\<lambda>opp. - profitEstimate opp) opportunities, s'))"

text \<open>
  The surroundings of \<open>executeArbitrage\<close>: the state of the price service and every
  call of \<open>executeSwap\<close> made so far.
\<close>

datatype direction = Buy | Sell

record SwapCall =
  tokenAddress :: string
  quoteToken :: string
  swapAmount :: real
  swapDex :: string
  swapDirection :: direction

record 'o World =
  priceService :: 'o
  swapCalls :: "SwapCall list"

text \<open>
  What the swaps read: the variable \<open>PAYMENT_MODE\<close> and the suffixes (\<open>Date.now()\<close>,
  \<open>Math.random()\<close>) of the two simulated references.
\<close>

record SwapEnv =
  paymentModeVar :: "string option"
  stamp1 :: string
  stamp2 :: string

definition paymentMode :: "SwapEnv \<Rightarrow> string" where
  "paymentMode env =
     (case paymentModeVar env of
        None \<Rightarrow> ''simulated''
      | Some v \<Rightarrow> (if v = [] then ''simulated'' else v))"

definition executeSwap ::
  "SwapEnv \<Rightarrow> string \<Rightarrow> string \<Rightarrow> string \<Rightarrow> real \<Rightarrow> string \<Rightarrow> direction \<Rightarrow> 'o World \<Rightarrow> string option \<times> 'o World" where
  "executeSwap env stamp tokAddr quote amount dex dir w =
     (let w' = w\<lparr>swapCalls := swapCalls w @
                  [\<lparr>tokenAddress = tokAddr, quoteToken = quote, swapAmount = amount,
                    swapDex = dex, swapDirection = dir\<rparr>]\<rparr>
      in if paymentMode env = ''simulated''
         then (Some (''swap_'' @ dex @ ''_'' @ stamp), w')
         else (None, w'))"

record ArbitrageResult =
  success :: bool
  txHash1 :: "string option"
  txHash2 :: "string option"
  actualProfit :: "real option"
  error :: "string option"

definition failure :: "string \<Rightarrow> ArbitrageResult" where
  "failure msg =
     \<lparr>success = False, txHash1 = None, txHash2 = None, actualProfit = None, error = Some msg\<rparr>"

text \<open>
  \<open>!txHash\<close>: \<open>null\<close> and the empty string are falsy.  Nothing in the body of
  \<open>executeArbitrage\<close> throws (\<open>getDEXPrice\<close> and \<open>executeSwap\<close> catch their own
  errors), so its \<open>catch\<close> clause has no branch here.
\<close>

definition missing :: "string option \<Rightarrow> bool" where
  "missing h = (case h of None \<Rightarrow> True | Some r \<Rightarrow> r = [])"

definition executeArbitrage ::
  "'o getDEXPrice \<Rightarrow> SwapEnv \<Rightarrow> ArbitrageOpportunity \<Rightarrow> real \<Rightarrow> 'o World \<Rightarrow> ArbitrageResult \<times> 'o World" where
  "executeArbitrage gp env opportunity amount w =
     (case gp (token opportunity) (dexA opportunity) (priceService w) of
        (currentPriceA, o1) \<Rightarrow>
     (case gp (token opportunity) (dexB opportunity) o1 of
        (currentPriceB, o2) \<Rightarrow>
     (let w1 = w\<lparr>priceService := o2\<rparr> in
      if currentPriceA = 0 \<or> currentPriceB = 0
      then (failure ''Price data unavailable for one or both DEXs'', w1)
      else if js_lt (priceDiffPercent currentPriceA currentPriceB) 0.3
      then (failure ''Arbitrage opportunity no longer viable'', w1)
      else
        let buyDEX = (if currentPriceA < currentPriceB then dexA opportunity else dexB opportunity);
            sellDEX = (if currentPriceA < currentPriceB then dexB opportunity else dexA opportunity);
            buyPrice = (if currentPriceA < currentPriceB then currentPriceA else currentPriceB);
            sellPrice = (if currentPriceA < currentPriceB then currentPriceB else currentPriceA);
            maxSlippage = 0.005;
            safeAmount = amount * (1 - maxSlippage);
            tokensReceived = safeAmount / buyPrice;
            tokensToSell = tokensReceived * (1 - 0.003);
            proceeds = tokensToSell * sellPrice;
            netProfit = proceeds - amount
        in if netProfit \<le> 0
           then (failure ''Arbitrage would result in loss after fees'', w1)
           else
             (case executeSwap env (stamp1 env) (token opportunity) ''SOL'' safeAmount buyDEX Buy w1 of
                (h1, w2) \<Rightarrow>
                  if missing h1 then (failure ''First swap failed'', w2)
                  else
                    (case executeSwap env (stamp2 env) (token opportunity) ''SOL'' tokensToSell sellDEX Sell w2 of
                       (h2, w3) \<Rightarrow>
                         if missing h2
                         then ((failure ''Second swap failed'')\<lparr>txHash1 := h1\<rparr>, w3)
                         else (\<lparr>success = True, txHash1 = h1, txHash2 = h2,
                                actualProfit = Some netProfit, error = None\<rparr>, w3))))))"

section \<open>The autonomous cycle (class \<open>AutonomousAgent\<close>, src/agent/revenue-manager.ts)\<close>

text \<open>
  Step 1 of \<open>autonomousCycle\<close> calls \<open>executeArbitrage\<close> on the first opportunity of the
  scan only under this condition (\<open>bal\<close> is the wallet's balance, read after the first
  two tests passed).
\<close>

definition attemptsArbitrage :: "ArbitrageOpportunity list \<Rightarrow> real \<Rightarrow> real \<Rightarrow> bool" where
  "attemptsArbitrage arbitrageOps bal minBalance =
     (case arbitrageOps of
        [] \<Rightarrow> False
      | bestOpportunity # _ \<Rightarrow>
          let minProfitThreshold = 0.05;
              requiredAmount = 0.5
          in profitEstimate bestOpportunity > minProfitThreshold \<and> risk bestOpportunity < 0.5
             \<and> bal \<ge> minBalance + requiredAmount)"

section \<open>Concrete inputs\<close>

text \<open>What six spawns take from their surroundings, with six different identifiers.\<close>

definition env1 :: SpawnEnv where
  "env1 = \<lparr>freshId = ''sub_1'', walletOf = ''wallet_1'', fundingRef = ''tx_1'', clock = 1\<rparr>"

definition env2 :: SpawnEnv where
  "env2 = \<lparr>freshId = ''sub_2'', walletOf = ''wallet_2'', fundingRef = ''tx_2'', clock = 2\<rparr>"

definition env3 :: SpawnEnv where
  "env3 = \<lparr>freshId = ''sub_3'', walletOf = ''wallet_3'', fundingRef = ''tx_3'', clock = 3\<rparr>"

definition env4 :: SpawnEnv where
  "env4 = \<lparr>freshId = ''sub_4'', walletOf = ''wallet_4'', fundingRef = ''tx_4'', clock = 4\<rparr>"

definition env5 :: SpawnEnv where
  "env5 = \<lparr>freshId = ''sub_5'', walletOf = ''wallet_5'', fundingRef = ''tx_5'', clock = 5\<rparr>"

definition env6 :: SpawnEnv where
  "env6 = \<lparr>freshId = ''sub_6'', walletOf = ''wallet_6'', fundingRef = ''tx_6'', clock = 6\<rparr>"

text \<open>Ledgers reached from the constructor's, by the calls named.\<close>

definition paidThree :: RevenueManager where
  "paidThree = run [RecordPayment env1 ''market-analysis'' 3] (newRevenueManager None)"


definition fivePayments :: "call list" where
  "fivePayments =
     [RecordPayment env1 ''market-analysis'' 3, RecordPayment env2 ''trading-strategy'' 3,
      RecordPayment env3 ''market-analysis'' 3, RecordPayment env4 ''data-aggregation'' 3,
      RecordPayment env5 ''market-analysis'' 3]"

definition fiveAgents :: RevenueManager where
  "fiveAgents = run fivePayments (newRevenueManager None)"




definition paidThree64 :: RevenueManager where
  "paidThree64 =
     run_r binary64 [RecordPayment env1 ''market-analysis'' 3] (newRevenueManager None)"

definition paidOneAndHalf64 :: RevenueManager where
  "paidOneAndHalf64 =
     run_r binary64 [RecordPayment env1 ''market-analysis'' 1.5] (newRevenueManager None)"

definition nearThreshold :: RevenueManager where
  "nearThreshold =
     \<lparr>earnings = \<lparr>total' = binary64 100.3,
                  byService = [(''market-analysis'', Num (binary64 100.3))],
                  reinvested = 0, available = binary64 100.3\<rparr>,
      reinvestmentThreshold = 100, subAgents = []\<rparr>"


text \<open>A price service that answers from a list, one price per call, then \<open>0\<close>.\<close>

definition listOracle :: "real list getDEXPrice" where
  "listOracle tok dex s = (case s of [] \<Rightarrow> (0, []) | p # ps \<Rightarrow> (p, ps))"

text \<open>An opportunity found earlier, and the surroundings of simulated swaps.\<close>

definition staleOpportunity :: ArbitrageOpportunity where
  "staleOpportunity =
     \<lparr>token = ''SOL'', dexA = ''jupiter'', dexB = ''raydium'', priceDiff = 0.6,
      profitEstimate = 0.5982, risk = 0.56\<rparr>"

definition simulated :: SwapEnv where
  "simulated = \<lparr>paymentModeVar = None, stamp1 = ''1'', stamp2 = ''2''\<rparr>"

text \<open>Inputs of the scoring function.\<close>

definition upHundred :: TradingSignalInput where
  "upHundred = \<lparr>price = 1, volume24h = 0, priceChange24h = 100, liquidity = 0, sentiment = 0\<rparr>"

definition saturating :: "real \<Rightarrow> TradingSignalInput" where
  "saturating p = \<lparr>price = p, volume24h = 10000000, priceChange24h = 1000,
                   liquidity = 50000000, sentiment = 1\<rparr>"

definition flat :: "real \<Rightarrow> TradingSignalInput" where
  "flat p = \<lparr>price = p, volume24h = 0, priceChange24h = 0, liquidity = 0, sentiment = 0\<rparr>"

definition mild :: TradingSignalInput where
  "mild = \<lparr>price = 2, volume24h = 1000000, priceChange24h = 100, liquidity = 0, sentiment = 0\<rparr>"

definition plain :: Formatting where
  "plain = \<lparr>numToString = (\<lambda>x. ''7''), toFixed2 = (\<lambda>x. ''1000.00'')\<rparr>"

section \<open>The specification's own formulas\<close>

text \<open>
  Two formulas written from the specification's words, to compare the program with.
  The first is the filter on a pair of venues with prices \<open>priceA\<close> and \<open>priceB\<close>: the
  pair is kept, as the one opportunity shown, when both prices are positive and
  \<open>100 * |priceA - priceB| / ((priceA + priceB) / 2) > 0.5\<close>.
\<close>

definition keptBySpec :: "string \<Rightarrow> string \<Rightarrow> real \<Rightarrow> string \<Rightarrow> real \<Rightarrow> ArbitrageOpportunity set" where
  "keptBySpec tok a priceA b priceB =
     (if priceA > 0 \<and> priceB > 0 \<and> 100 * \<bar>priceA - priceB\<bar> / ((priceA + priceB) / 2) > 0.5
      then {\<lparr>token = tok, dexA = a, dexB = b, priceDiff = \<bar>priceA - priceB\<bar>,
             profitEstimate = \<bar>priceA - priceB\<bar> * 0.997,
             risk = assessArbitrageRisk tok a b \<bar>priceA - priceB\<bar>\<rparr>}
      else {})"

text \<open>
  The second is the score before the clamp with the price change counted under the
  price weight \<open>0.30\<close> and again under the momentum weight \<open>0.15\<close>.
\<close>

definition doubleCountedScore :: "TradingSignalInput \<Rightarrow> real" where
  "doubleCountedScore input =
     (0.30 + 0.15) * (priceChange24h input / 100)
     + 0.25 * min (volume24h input / 1000000) 1
     + 0.20 * sentiment input
     + 0.10 * min (liquidity input / 10000000) 1"

section \<open>Properties of the revenue manager\<close>

lemma keys_assign: "fst ` set (assign k v m) = insert k (fst ` set m)"
proof (induction m)
  case Nil
  show ?case by simp
next
  case (Cons kv m)
  obtain k' v' where kv: "kv = (k', v')" by (cases kv)
  show ?case using Cons.IH kv by (cases "k = k'") (simp_all add: insert_commute)
qed

lemma length_assign_le: "length (assign k v m) \<le> Suc (length m)"
  by (induction m) auto


lemmas revenue_defs =
  considerReinvestment_def recordPayment_def debit_def spawnSubAgent_def upgradeAgent_def
  shouldUpgrade_def newRevenueManager_def credit_def credited_def store_def
  inheritedNames_def Let_def

subsection \<open>The ledger's running sums\<close>

lemma exponent_numeral:
  "exponent (numeral k) x =
     (if 2 \<le> \<bar>x\<bar> then exponent (pred_numeral k) (x / 2) + 1
      else if \<bar>x\<bar> < 1 then exponent (pred_numeral k) (x * 2) - 1
      else 0)"
  by (simp add: numeral_eq_Suc)

lemmas binary64_eval = binary64_def ulp_def rne_def exponent_numeral Let_def

lemma binary64_values:
  "binary64 0.1 = 3602879701896397 / 36028797018963968"
  "binary64 0.3 = 5404319552844595 / 18014398509481984"
  "binary64 (1 / 3) = 6004799503160661 / 18014398509481984"
  "binary64 (- 2.7) = - (3039929748475085 / 1125899906842624)"
  "binary64 (3602879701896397 / 36028797018963968) = 3602879701896397 / 36028797018963968"
  "binary64 3 = 3"
  by (simp_all add: binary64_eval)

text \<open>Without rounding the functions with the suffix \<open>_r\<close> are the exact ones.\<close>

lemma credited_unrounded: "credited_r (\<lambda>x. x) m k amount = credited m k amount"
  by (simp add: credited_r_def credited_def)

lemma credit_unrounded: "credit_r (\<lambda>x. x) serviceId amount m = credit serviceId amount m"
  by (simp add: credit_r_def credit_def credited_unrounded)

lemma debit_unrounded: "debit_r (\<lambda>x. x) cost m = debit cost m"
  by (simp add: debit_r_def debit_def)

lemma considerReinvestment_unrounded:
  "considerReinvestment_r (\<lambda>x. x) env m = considerReinvestment env m"
  by (simp add: considerReinvestment_r_def considerReinvestment_def debit_unrounded Let_def)

lemma recordPayment_unrounded:
  "recordPayment_r (\<lambda>x. x) env serviceId amount m = recordPayment env serviceId amount m"
  by (simp add: recordPayment_r_def recordPayment_def credit_unrounded
      considerReinvestment_unrounded Let_def)

lemma run_unrounded: "run_r (\<lambda>x. x) cs m = run cs m"
proof (induction cs arbitrary: m)
  case Nil
  show ?case by simp
next
  case (Cons c cs)
  then show ?case
    by (cases c) (simp_all add: recordPayment_unrounded considerReinvestment_unrounded)
qed

lemmas rounded_defs =
  considerReinvestment_r_def recordPayment_r_def debit_r_def credit_r_def credited_r_def
  spawnSubAgent_def upgradeAgent_def shouldUpgrade_def newRevenueManager_def store_def
  inheritedNames_def












subsection \<open>The ledgers of the examples\<close>

lemma paidThree_eq:
  "paidThree =
     \<lparr>earnings = \<lparr>total' = 3, byService = [(''market-analysis'', Num 3)], reinvested = 0.3,
                  available = 2.7\<rparr>,
      reinvestmentThreshold = 1,
      subAgents = [(''sub_1'', \<lparr>id' = ''sub_1'', parentId = ''main'', role = ''data-collector'',
         balance = 0.3, status = active, createdAt = 1, walletAddress = Some ''wallet_1'',
         fundingTxHash = Some ''tx_1''\<rparr>)]\<rparr>"
  by (simp add: paidThree_def revenue_defs env1_def)


lemma fiveAgents_facts:
  "length (subAgents fiveAgents) = 5 \<and> available (earnings fiveAgents) = 13.5 \<and>
   total' (earnings fiveAgents) = 15 \<and> reinvested (earnings fiveAgents) = 1.5 \<and>
   reinvestmentThreshold fiveAgents = 1"
  by (simp add: fiveAgents_def fivePayments_def revenue_defs env1_def env2_def env3_def
      env4_def env5_def)


subsection \<open>Payments that are not positive\<close>



lemma credit_fields:
  "total' (earnings (credit serviceId amount m)) = total' (earnings m) + amount"
  "available (earnings (credit serviceId amount m)) = available (earnings m) + amount"
  "reinvested (earnings (credit serviceId amount m)) = reinvested (earnings m)"
  "subAgents (credit serviceId amount m) = subAgents m"
  "reinvestmentThreshold (credit serviceId amount m) = reinvestmentThreshold m"
  by (simp_all add: credit_def Let_def)



lemma paidThree64_eq:
  "paidThree64 =
     \<lparr>earnings = \<lparr>total' = 3, byService = [(''market-analysis'', Num 3)],
                  reinvested = 5404319552844595 / 18014398509481984,
                  available = 3039929748475085 / 1125899906842624\<rparr>,
      reinvestmentThreshold = 1,
      subAgents = [(''sub_1'', \<lparr>id' = ''sub_1'', parentId = ''main'', role = ''data-collector'',
         balance = 5404319552844595 / 18014398509481984, status = active, createdAt = 1,
         walletAddress = Some ''wallet_1'', fundingTxHash = Some ''tx_1''\<rparr>)]\<rparr>"
  by (simp add: paidThree64_def rounded_defs binary64_eval env1_def)




subsection \<open>The reinvestment decision\<close>



subsection \<open>The cap on sub-agents\<close>

lemma length_assign_below: "length m < n \<Longrightarrow> length (assign k v m) \<le> n"
  using length_assign_le [of k v m] by simp

lemma considerReinvestment_cap:
  "length (subAgents m) \<le> 5 \<Longrightarrow> length (subAgents (considerReinvestment env m)) \<le> 5"
  by (simp add: considerReinvestment_def debit_def spawnSubAgent_def upgradeAgent_def Let_def
      length_assign_below)

lemma recordPayment_cap:
  "length (subAgents m) \<le> 5 \<Longrightarrow> length (subAgents (recordPayment env serviceId amount m)) \<le> 5"
  by (simp add: recordPayment_def Let_def considerReinvestment_cap credit_fields)

lemma run_cap: "length (subAgents m) \<le> 5 \<Longrightarrow> length (subAgents (run cs m)) \<le> 5"
proof (induction cs arbitrary: m)
  case Nil
  then show ?case by simp
next
  case (Cons c cs)
  have "length (subAgents (perform c m)) \<le> 5"
    using Cons.prems by (cases c) (simp_all add: recordPayment_cap considerReinvestment_cap)
  then show ?case using Cons.IH by simp
qed

text \<open>
  Claim C4.  After every sequence of \<open>recordPayment\<close> and \<open>considerReinvestment\<close> calls
  from the constructor's state there are at most \<open>5\<close> sub-agent records.  With \<open>5\<close>
  records, \<open>considerReinvestment\<close> adds none: it takes the upgrade branch (\<open>0.5\<close> from
  \<open>available\<close> to \<open>reinvested\<close>) when \<open>available\<close> is at least the threshold and \<open>0.5\<close> and
  \<open>total > 10\<close>, and leaves the state unchanged otherwise.
\<close>

theorem spawn_cap:
  "length (subAgents (run cs (newRevenueManager t))) \<le> 5 \<and>
   (length (subAgents m) = 5 \<longrightarrow>
      subAgents (considerReinvestment env m) = subAgents m \<and>
      considerReinvestment env m =
        (if reinvestmentThreshold m \<le> available (earnings m) \<and> 0.5 \<le> available (earnings m) \<and>
            10 < total' (earnings m)
         then m\<lparr>earnings := (earnings m)\<lparr>available := available (earnings m) - 0.5,
                                         reinvested := reinvested (earnings m) + 0.5\<rparr>\<rparr>
         else m))"
proof -
  have "length (subAgents (newRevenueManager t)) \<le> 5"
    by (simp add: newRevenueManager_def)
  then have "length (subAgents (run cs (newRevenueManager t))) \<le> 5"
    by (rule run_cap)
  moreover have "length (subAgents m) = 5 \<longrightarrow>
      subAgents (considerReinvestment env m) = subAgents m \<and>
      considerReinvestment env m =
        (if reinvestmentThreshold m \<le> available (earnings m) \<and> 0.5 \<le> available (earnings m) \<and>
            10 < total' (earnings m)
         then m\<lparr>earnings := (earnings m)\<lparr>available := available (earnings m) - 0.5,
                                         reinvested := reinvested (earnings m) + 0.5\<rparr>\<rparr>
         else m)"
    by (simp add: considerReinvestment_def debit_def upgradeAgent_def shouldUpgrade_def Let_def)
  ultimately show ?thesis by simp
qed

theorem spawn_cap_witness:
  "length (subAgents fiveAgents) = 5 \<and>
   length (subAgents (run fivePayments (newRevenueManager None))) \<le> 5 \<and>
   subAgents (considerReinvestment env6 fiveAgents) = subAgents fiveAgents \<and>
   available (earnings (considerReinvestment env6 fiveAgents)) = 13"
  using spawn_cap [of fivePayments None fiveAgents env6] fiveAgents_facts
  by simp

subsection \<open>Two checks in a row\<close>

text \<open>
  Claim C5 says that two calls of \<open>considerReinvestment\<close> in a row debit \<open>available\<close>
  at most once.  On the ledger \<open>paidThree\<close> (\<open>available = 2.7\<close>, threshold \<open>1\<close>, one
  sub-agent) both calls spawn: \<open>available\<close> falls by \<open>0.3\<close> twice and two sub-agents are
  added.  In the program's arithmetic \<open>available\<close> goes from \<open>2.7\<close> to
  \<open>2.4000000000000004\<close> and to \<open>2.1000000000000005\<close>, and the sub-agents from one to
  three.
\<close>

theorem twice_counterexample:
  "available (earnings (considerReinvestment env2 paidThree)) =
     available (earnings paidThree) - 0.3 \<and>
   available (earnings (considerReinvestment env3 (considerReinvestment env2 paidThree))) =
     available (earnings (considerReinvestment env2 paidThree)) - 0.3 \<and>
   length (subAgents (considerReinvestment env3 (considerReinvestment env2 paidThree))) =
     length (subAgents paidThree) + 2 \<and>
   available (earnings paidThree64) = 3039929748475085 / 1125899906842624 \<and>
   available (earnings (considerReinvestment_r binary64 env2 paidThree64)) =
     1351079888211149 / 562949953421312 \<and>
   available (earnings (considerReinvestment_r binary64 env3
       (considerReinvestment_r binary64 env2 paidThree64))) =
     2364389804369511 / 1125899906842624 \<and>
   length (subAgents paidThree64) = 1 \<and>
   length (subAgents (considerReinvestment_r binary64 env3
       (considerReinvestment_r binary64 env2 paidThree64))) = 3"
proof -
  have exact: "available (earnings (considerReinvestment env2 paidThree)) =
      available (earnings paidThree) - 0.3 \<and>
    available (earnings (considerReinvestment env3 (considerReinvestment env2 paidThree))) =
      available (earnings (considerReinvestment env2 paidThree)) - 0.3 \<and>
    length (subAgents (considerReinvestment env3 (considerReinvestment env2 paidThree))) =
      length (subAgents paidThree) + 2"
    by (simp add: paidThree_eq revenue_defs env2_def env3_def)
  have rounded: "available (earnings (considerReinvestment_r binary64 env2 paidThree64)) =
      1351079888211149 / 562949953421312 \<and>
    available (earnings (considerReinvestment_r binary64 env3
        (considerReinvestment_r binary64 env2 paidThree64))) =
      2364389804369511 / 1125899906842624 \<and>
    length (subAgents (considerReinvestment_r binary64 env3
        (considerReinvestment_r binary64 env2 paidThree64))) = 3"
    by (simp add: paidThree64_eq rounded_defs binary64_eval env2_def env3_def)
  show ?thesis
    using exact rounded by (simp add: paidThree64_eq)
qed

text \<open>
  A margin of \<open>0.3\<close> above the threshold does not bound the number of actions: on
  the ledger \<open>nearThreshold\<close>, with threshold \<open>100\<close> and \<open>available\<close> the number
  \<open>100.3\<close> of the program, which is below \<open>100\<close> plus the program's \<open>0.3\<close>, the first
  call leaves \<open>available = 100\<close> and the second spawns again.
\<close>

lemma margin_example:
  "available (earnings nearThreshold) < reinvestmentThreshold nearThreshold + binary64 0.3 \<and>
   available (earnings (considerReinvestment_r binary64 env1 nearThreshold)) = 100 \<and>
   length (subAgents (considerReinvestment_r binary64 env2
       (considerReinvestment_r binary64 env1 nearThreshold))) = 2"
  by (simp add: nearThreshold_def rounded_defs binary64_eval env1_def env2_def)

text \<open>
  Claim C5, amended.  Two calls of \<open>considerReinvestment\<close> in a row with no payment
  between perform at most one reinvestment action, the second call changing nothing,
  \<^item> whenever \<open>available\<close> is below the threshold after the first call, and
  \<^item> so whenever, before the first call, a debit of \<open>0.3\<close> and a debit of \<open>0.5\<close>
    would each leave \<open>available\<close> below the threshold,
  the differences being those the program computes (\<open>rnd\<close>: \<open>binary64\<close> for the
  program, the identity for exact differences).
\<close>

theorem second_check_idle:
  "(available (earnings (considerReinvestment_r rnd env m)) <
      reinvestmentThreshold (considerReinvestment_r rnd env m) \<longrightarrow>
      considerReinvestment_r rnd env' (considerReinvestment_r rnd env m) =
        considerReinvestment_r rnd env m) \<and>
   (rnd (available (earnings m) - rnd 0.3) < reinvestmentThreshold m \<and>
    rnd (available (earnings m) - rnd 0.5) < reinvestmentThreshold m \<longrightarrow>
      considerReinvestment_r rnd env' (considerReinvestment_r rnd env m) =
        considerReinvestment_r rnd env m) \<and>
   considerReinvestment_r (\<lambda>x. x) env m = considerReinvestment env m"
proof -
  have after: "available (earnings (considerReinvestment_r rnd env m)) <
      reinvestmentThreshold (considerReinvestment_r rnd env m) \<longrightarrow>
      considerReinvestment_r rnd env' (considerReinvestment_r rnd env m) =
        considerReinvestment_r rnd env m"
    by (simp add: considerReinvestment_r_def [of rnd env'])
  have before: "rnd (available (earnings m) - rnd 0.3) < reinvestmentThreshold m \<and>
    rnd (available (earnings m) - rnd 0.5) < reinvestmentThreshold m \<longrightarrow>
      considerReinvestment_r rnd env' (considerReinvestment_r rnd env m) =
        considerReinvestment_r rnd env m"
    by (auto simp: considerReinvestment_r_def debit_r_def spawnSubAgent_def upgradeAgent_def
        shouldUpgrade_def Let_def)
  show ?thesis
    using after before considerReinvestment_unrounded [of env m] by blast
qed

theorem second_check_idle_witness:
  "available (earnings paidOneAndHalf64) = 5404319552844595 / 4503599627370496 \<and>
   available (earnings (considerReinvestment_r binary64 env2 paidOneAndHalf64)) =
     2026619832316723 / 2251799813685248 \<and>
   considerReinvestment_r binary64 env3 (considerReinvestment_r binary64 env2 paidOneAndHalf64) =
     considerReinvestment_r binary64 env2 paidOneAndHalf64"
proof -
  have state: "paidOneAndHalf64 =
     \<lparr>earnings = \<lparr>total' = 1.5, byService = [(''market-analysis'', Num 1.5)],
                  reinvested = 5404319552844595 / 18014398509481984,
                  available = 5404319552844595 / 4503599627370496\<rparr>,
      reinvestmentThreshold = 1,
      subAgents = [(''sub_1'', \<lparr>id' = ''sub_1'', parentId = ''main'', role = ''data-collector'',
         balance = 5404319552844595 / 18014398509481984, status = active, createdAt = 1,
         walletAddress = Some ''wallet_1'', fundingTxHash = Some ''tx_1''\<rparr>)]\<rparr>"
    by (simp add: paidOneAndHalf64_def rounded_defs binary64_eval env1_def)
  have next_state: "available (earnings (considerReinvestment_r binary64 env2 paidOneAndHalf64)) =
      2026619832316723 / 2251799813685248 \<and>
      reinvestmentThreshold (considerReinvestment_r binary64 env2 paidOneAndHalf64) = 1"
    by (simp add: state rounded_defs binary64_eval)
  show ?thesis
    using second_check_idle [of binary64 env2 paidOneAndHalf64 env3] next_state
    by (simp add: state)
qed

section \<open>Properties of the scoring function\<close>

lemmas scoring_defs =
  generateTradingSignals_def generateReasoning_def calculateSignalScore_def
  calculateSignalScoreWith_def weightedScore_def modelWeights_def determineAction_def Let_def

text \<open>
  Claim C6 says that the score before the clamp counts \<open>priceChange24h / 100\<close> under the
  price weight and again under the momentum weight, a coefficient of \<open>0.45\<close>.  For a
  price change of \<open>100\<close> and every other input \<open>0\<close> the program's score is \<open>0.3\<close> and the
  action \<open>hold\<close>; the double-counted score is \<open>0.45\<close>, which would select \<open>buy\<close>.
\<close>

theorem double_count_counterexample:
  "weightedScore modelWeights upHundred = 0.3 \<and> doubleCountedScore upHundred = 0.45 \<and>
   determineAction (calculateSignalScore upHundred) = hold \<and>
   determineAction (max (- 1) (min 1 (doubleCountedScore upHundred))) = buy"
  by (simp add: weightedScore_def modelWeights_def doubleCountedScore_def upHundred_def
      calculateSignalScore_def calculateSignalScoreWith_def determineAction_def Let_def)

text \<open>
  Claim C6, amended.  The score before the clamp is
  \<open>0.30 * priceChange24h / 100 + 0.25 * min(volume24h / 1,000,000, 1) + 0.20 * sentiment
  + 0.10 * min(liquidity / 10,000,000, 1)\<close>: the price change is counted once, under the
  price weight.  The momentum weight \<open>0.15\<close> of the table is never read: the score is the
  same for every value of it.
\<close>

theorem single_weight_score:
  "weightedScore modelWeights input =
     0.30 * (priceChange24h input / 100)
     + 0.25 * min (volume24h input / 1000000) 1
     + 0.20 * sentiment input
     + 0.10 * min (liquidity input / 10000000) 1 \<and>
   weightedScore (w\<lparr>momentum_w := x\<rparr>) input = weightedScore w input \<and>
   calculateSignalScore input = max (- 1) (min 1 (weightedScore modelWeights input))"
  by (simp add: weightedScore_def modelWeights_def calculateSignalScore_def
      calculateSignalScoreWith_def Let_def)

theorem single_weight_score_witness:
  "weightedScore modelWeights upHundred = 0.3 \<and>
   weightedScore (modelWeights\<lparr>momentum_w := 100\<rparr>) upHundred = 0.3 \<and>
   calculateSignalScore upHundred = 0.3"
  using single_weight_score [where input = upHundred and w = modelWeights and x = 100]
  by (simp add: upHundred_def)

text \<open>
  Claim C9.  For \<open>priceChange24h = 1000\<close>, \<open>volume24h = 10,000,000\<close>, \<open>sentiment = 1\<close>,
  \<open>liquidity = 50,000,000\<close> and any price, the score before the clamp is \<open>3.55\<close>, the
  score is exactly \<open>1.0\<close>, the action is \<open>buy\<close>, and \<open>generateTradingSignals\<close> returns
  one signal, with action \<open>buy\<close> and confidence \<open>1.0\<close>.
\<close>

theorem scoring_saturation:
  "weightedScore modelWeights (saturating p) = 3.55 \<and>
   calculateSignalScore (saturating p) = 1.0 \<and>
   determineAction (calculateSignalScore (saturating p)) = buy \<and>
   map action_s (generateTradingSignals fmt (saturating p)) = [buy] \<and>
   map confidence (generateTradingSignals fmt (saturating p)) = [1.0]"
  by (simp add: generateTradingSignals_def calculateSignalScore_def calculateSignalScoreWith_def
      weightedScore_def modelWeights_def determineAction_def saturating_def Let_def)

theorem scoring_saturation_witness:
  "generateTradingSignals plain (saturating 7) =
     [\<lparr>action_s = buy, token_s = ''7'', confidence = 1, price_s = 7,
       reasoning = ''BUY: Price up 1000.00%, High volume, Positive sentiment''\<rparr>]"
  using scoring_saturation [of 7 plain]
  by (simp add: generateTradingSignals_def generateReasoning_def saturating_def plain_def
      calculateSignalScore_def calculateSignalScoreWith_def weightedScore_def modelWeights_def
      determineAction_def Let_def)

text \<open>
  The boundary of the scoring: with no price change, volume, sentiment or liquidity
  the score is \<open>0\<close>, and the one signal is \<open>hold\<close> with confidence \<open>0\<close>.
\<close>

theorem scoring_boundary:
  "calculateSignalScore (flat p) = 0 \<and>
   generateTradingSignals fmt (flat p) =
     [\<lparr>action_s = hold, token_s = numToString fmt p, confidence = 0, price_s = p,
       reasoning = ''HOLD: ''\<rparr>]"
  by (simp add: scoring_defs flat_def)

theorem scoring_boundary_witness:
  "generateTradingSignals plain (flat 7) =
     [\<lparr>action_s = hold, token_s = ''7'', confidence = 0, price_s = 7, reasoning = ''HOLD: ''\<rparr>]"
  using scoring_boundary [of 7 plain] by (simp add: plain_def)

text \<open>
  The score lies in \<open>[-1, 1]\<close>, every signal's confidence in \<open>[0, 1]\<close>, and there are two
  signals when \<open>0.3 < |score| < 0.7\<close> and one otherwise.
\<close>

theorem score_range:
  "- 1 \<le> calculateSignalScore input \<and> calculateSignalScore input \<le> 1 \<and>
   (\<forall>sig \<in> set (generateTradingSignals fmt input). 0 \<le> confidence sig \<and> confidence sig \<le> 1) \<and>
   length (generateTradingSignals fmt input) =
     (if 0.3 < \<bar>calculateSignalScore input\<bar> \<and> \<bar>calculateSignalScore input\<bar> < 0.7 then 2 else 1)"
proof -
  have r: "- 1 \<le> calculateSignalScore input \<and> calculateSignalScore input \<le> 1"
    by (simp add: calculateSignalScore_def calculateSignalScoreWith_def)
  then have a: "\<bar>calculateSignalScore input\<bar> \<le> 1" by linarith
  show ?thesis using r a by (auto simp: generateTradingSignals_def Let_def)
qed

theorem score_range_witness:
  "calculateSignalScore mild = 0.55 \<and>
   map confidence (generateTradingSignals plain mild) = [0.55, 0.5] \<and>
   map action_s (generateTradingSignals plain mild) = [buy, hold]"
  using score_range [of mild plain]
  by (simp add: scoring_defs mild_def)

section \<open>Properties of the arbitrage scan\<close>

lemma percent_positive:
  "0 < a \<Longrightarrow> 0 < b \<Longrightarrow>
   js_gt (priceDiffPercent a b) c \<longleftrightarrow> 100 * \<bar>a - b\<bar> / ((a + b) / 2) > c"
  by (simp add: priceDiffPercent_def js_div_def Let_def)

lemma considerPair_positive:
  assumes "map_of prices a = Some pa" and "map_of prices b = Some pb" and "0 < pa" and "0 < pb"
  shows "set (considerPair tok prices a b) = keptBySpec tok a pa b pb"
  using assms by (simp add: considerPair_def keptBySpec_def percent_positive Let_def)

lemma fetch3:
  assumes "gp tok ''jupiter'' s = (pj, s1)" and "gp tok ''raydium'' s1 = (pr, s2)"
    and "gp tok ''orca'' s2 = (po, s3)"
  shows "fetchPrices gp tok dexes [] s =
     (filter (\<lambda>(d, p). p > 0) [(''jupiter'', pj), (''raydium'', pr), (''orca'', po)], s3)"
  using assms by (simp add: dexes_def)

lemma scan3:
  "set (scanLoop tok (filter (\<lambda>(d, p). p > 0) [(''jupiter'', pj), (''raydium'', pr), (''orca'', po)])
      (map fst (filter (\<lambda>(d, p). p > 0) [(''jupiter'', pj), (''raydium'', pr), (''orca'', po)]))) =
   keptBySpec tok ''jupiter'' pj ''raydium'' pr \<union> keptBySpec tok ''jupiter'' pj ''orca'' po \<union>
   keptBySpec tok ''raydium'' pr ''orca'' po"
proof -
  have k: "\<And>a pa b pb. \<not> (0 < pa \<and> 0 < pb) \<Longrightarrow> keptBySpec tok a pa b pb = {}"
    by (auto simp: keptBySpec_def)
  show ?thesis
    by (cases "0 < pj"; cases "0 < pr"; cases "0 < po")
       (simp_all add: considerPair_positive k Un_assoc)
qed


lemma tokenLoop_acc:
  "tokenLoop gp toks acc s = (acc @ fst (tokenLoop gp toks [] s), snd (tokenLoop gp toks [] s))"
proof (induction toks arbitrary: acc s)
  case Nil
  show ?case by simp
next
  case (Cons tok toks)
  obtain prices s' where f: "fetchPrices gp tok dexes [] s = (prices, s')"
    by (cases "fetchPrices gp tok dexes [] s")
  show ?case
    using Cons.IH [of "acc @ scanLoop tok prices (map fst prices)" s']
      Cons.IH [of "scanLoop tok prices (map fst prices)" s'] f
    by simp
qed

lemma find_single:
  assumes "gp tok ''jupiter'' s = (pj, s1)" and "gp tok ''raydium'' s1 = (pr, s2)"
    and "gp tok ''orca'' s2 = (po, s3)"
  shows "set (fst (findArbitrageOpportunities gp [tok] s)) =
     keptBySpec tok ''jupiter'' pj ''raydium'' pr \<union> keptBySpec tok ''jupiter'' pj ''orca'' po \<union>
     keptBySpec tok ''raydium'' pr ''orca'' po"
    and "snd (findArbitrageOpportunities gp [tok] s) = s3"
  using fetch3 [of gp tok s pj s1 pr s2 po s3] assms scan3 [of tok pj pr po]
  by (simp_all add: findArbitrageOpportunities_def)

lemma find_cons:
  "set (fst (findArbitrageOpportunities gp (tok # rest) s)) =
     set (fst (findArbitrageOpportunities gp [tok] s)) \<union>
     set (fst (findArbitrageOpportunities gp rest (snd (findArbitrageOpportunities gp [tok] s))))"
proof -
  obtain prices s' where f: "fetchPrices gp tok dexes [] s = (prices, s')"
    by (cases "fetchPrices gp tok dexes [] s")
  show ?thesis
    using f tokenLoop_acc [of gp rest "scanLoop tok prices (map fst prices)" s']
    by (simp add: findArbitrageOpportunities_def split: prod.splits)
qed

text \<open>A property of everything the pair body pushes holds of everything returned.\<close>

lemma pairLoop_all:
  assumes "\<And>a b. \<forall>opp \<in> set (considerPair tok prices a b). P opp"
  shows "\<forall>opp \<in> set (pairLoop tok prices a names). P opp"
  using assms by (induction names) auto

lemma scanLoop_all:
  assumes "\<And>a b. \<forall>opp \<in> set (considerPair tok prices a b). P opp"
  shows "\<forall>opp \<in> set (scanLoop tok prices names). P opp"
  using pairLoop_all [of tok prices P, OF assms] by (induction names) auto

lemma tokenLoop_all:
  assumes "\<And>tok prices a b. \<forall>opp \<in> set (considerPair tok prices a b). P opp"
    and "\<forall>opp \<in> set acc. P opp"
  shows "\<forall>opp \<in> set (fst (tokenLoop gp toks acc s)). P opp"
  using assms(2)
proof (induction toks arbitrary: acc s)
  case Nil
  then show ?case by simp
next
  case (Cons tok toks)
  obtain prices s' where f: "fetchPrices gp tok dexes [] s = (prices, s')"
    by (cases "fetchPrices gp tok dexes [] s")
  have "\<forall>opp \<in> set (acc @ scanLoop tok prices (map fst prices)). P opp"
    using Cons.prems scanLoop_all [of tok prices P, OF assms(1)] by auto
  then have "\<forall>opp \<in> set (fst (tokenLoop gp toks
      (acc @ scanLoop tok prices (map fst prices)) s')). P opp"
    by (rule Cons.IH)
  then show ?case using f by simp
qed

lemma find_all:
  assumes "\<And>tok prices a b. \<forall>opp \<in> set (considerPair tok prices a b). P opp"
  shows "\<forall>opp \<in> set (fst (findArbitrageOpportunities gp toks s)). P opp"
  using tokenLoop_all [of P "[]" gp toks s, OF assms]
  by (simp add: findArbitrageOpportunities_def split: prod.splits)

lemma considerPair_profit:
  "\<forall>opp \<in> set (considerPair tok prices a b). profitEstimate opp = priceDiff opp * 0.997"
  by (auto simp: considerPair_def Let_def split: option.splits if_splits)

lemma assess_bounds:
  "0 \<le> diff \<Longrightarrow> 0.5 \<le> assessArbitrageRisk tok a b diff \<and> assessArbitrageRisk tok a b diff \<le> 0.9 \<and>
    assessArbitrageRisk tok a b diff = 0.3 + min (diff / 10) 0.4 + 0.2"
  by (simp add: assessArbitrageRisk_def Let_def min_def)

lemma considerPair_risk:
  "\<forall>opp \<in> set (considerPair tok prices a b). 0.5 \<le> risk opp \<and> risk opp \<le> 0.9"
proof
  fix opp
  assume "opp \<in> set (considerPair tok prices a b)"
  then have "0 \<le> priceDiff opp \<and> risk opp = assessArbitrageRisk tok a b (priceDiff opp)"
    by (auto simp: considerPair_def Let_def split: option.splits if_splits)
  then show "0.5 \<le> risk opp \<and> risk opp \<le> 0.9"
    using assess_bounds [of "priceDiff opp" tok a b] by simp
qed

text \<open>
  Claim C7.  \<open>findArbitrageOpportunities\<close> returns nothing for no token; for a list of
  tokens it returns what it returns for the first token together with what it returns
  for the rest (asked after the first); and for one token, with \<open>pj\<close>, \<open>pr\<close>, \<open>po\<close> the
  prices the three venues answer in turn, it returns exactly the pairs (in venue order)
  with both prices positive and \<open>100 * |priceA - priceB| / ((priceA + priceB) / 2) > 0.5\<close>.
  Every entry returned has \<open>profitEstimate = priceDiff * 0.997\<close>, where \<open>priceDiff\<close> is
  \<open>|priceA - priceB|\<close>.  Prices \<open>100\<close> and \<open>100.3\<close> give no entry; prices \<open>100\<close> and
  \<open>100.6\<close> give one.
\<close>

theorem arbitrage_filter:
  "findArbitrageOpportunities gp [] s = ([], s) \<and>
   set (fst (findArbitrageOpportunities gp (tok # rest) s)) =
     set (fst (findArbitrageOpportunities gp [tok] s)) \<union>
     set (fst (findArbitrageOpportunities gp rest (snd (findArbitrageOpportunities gp [tok] s)))) \<and>
   (case gp tok ''jupiter'' s of (pj, s1) \<Rightarrow>
    case gp tok ''raydium'' s1 of (pr, s2) \<Rightarrow>
    case gp tok ''orca'' s2 of (po, s3) \<Rightarrow>
      set (fst (findArbitrageOpportunities gp [tok] s)) =
        keptBySpec tok ''jupiter'' pj ''raydium'' pr \<union>
        keptBySpec tok ''jupiter'' pj ''orca'' po \<union>
        keptBySpec tok ''raydium'' pr ''orca'' po \<and>
      snd (findArbitrageOpportunities gp [tok] s) = s3) \<and>
   (\<forall>opp \<in> set (fst (findArbitrageOpportunities gp tokens s)).
      profitEstimate opp = priceDiff opp * 0.997) \<and>
   fst (findArbitrageOpportunities listOracle [''SOL''] [100, 100.3]) = [] \<and>
   fst (findArbitrageOpportunities listOracle [''SOL''] [100, 100.6]) =
     [\<lparr>token = ''SOL'', dexA = ''jupiter'', dexB = ''raydium'', priceDiff = 0.6,
       profitEstimate = 0.6 * 0.997, risk = 0.56\<rparr>]"
proof -
  have one: "findArbitrageOpportunities gp [] s = ([], s)"
    by (simp add: findArbitrageOpportunities_def)
  have three: "case gp tok ''jupiter'' s of (pj, s1) \<Rightarrow>
    case gp tok ''raydium'' s1 of (pr, s2) \<Rightarrow>
    case gp tok ''orca'' s2 of (po, s3) \<Rightarrow>
      set (fst (findArbitrageOpportunities gp [tok] s)) =
        keptBySpec tok ''jupiter'' pj ''raydium'' pr \<union>
        keptBySpec tok ''jupiter'' pj ''orca'' po \<union>
        keptBySpec tok ''raydium'' pr ''orca'' po \<and>
      snd (findArbitrageOpportunities gp [tok] s) = s3"
    using find_single [of gp tok s] by (auto split: prod.splits)
  have four: "\<forall>opp \<in> set (fst (findArbitrageOpportunities gp tokens s)).
      profitEstimate opp = priceDiff opp * 0.997"
    by (rule find_all) (rule considerPair_profit)
  have five: "fst (findArbitrageOpportunities listOracle [''SOL''] [100, 100.3]) = []"
    by (simp add: findArbitrageOpportunities_def dexes_def listOracle_def considerPair_def
        priceDiffPercent_def js_div_def Let_def)
  have six: "fst (findArbitrageOpportunities listOracle [''SOL''] [100, 100.6]) =
     [\<lparr>token = ''SOL'', dexA = ''jupiter'', dexB = ''raydium'', priceDiff = 0.6,
       profitEstimate = 0.6 * 0.997, risk = 0.56\<rparr>]"
    by (simp add: findArbitrageOpportunities_def dexes_def listOracle_def considerPair_def
        priceDiffPercent_def js_div_def assessArbitrageRisk_def Let_def)
  show ?thesis
    using one find_cons [of gp tok rest s] three four five six by blast
qed

theorem arbitrage_filter_witness:
  "set (fst (findArbitrageOpportunities listOracle [''SOL''] [100, 100.6, 0])) =
     {\<lparr>token = ''SOL'', dexA = ''jupiter'', dexB = ''raydium'', priceDiff = 0.6,
       profitEstimate = 0.5982, risk = 0.56\<rparr>} \<and>
   snd (findArbitrageOpportunities listOracle [''SOL''] [100, 100.6, 0]) = []"
  using arbitrage_filter [of listOracle "[100, 100.6, 0]" "''SOL''" "[]" "[''SOL'']"]
  by (simp add: listOracle_def keptBySpec_def assessArbitrageRisk_def)

text \<open>
  The list returned is in falling order of \<open>profitEstimate\<close>, and entries of equal
  \<open>profitEstimate\<close> keep the order in which the loops found them.
\<close>

theorem scan_sorted:
  "sorted (map (\<lambda>opp. - profitEstimate opp) (fst (findArbitrageOpportunities gp toks s))) \<and>
   filter (\<lambda>opp. profitEstimate opp = v) (fst (findArbitrageOpportunities gp toks s)) =
     filter (\<lambda>opp. profitEstimate opp = v) (fst (tokenLoop gp toks [] s)) \<and>
   snd (findArbitrageOpportunities gp toks s) = snd (tokenLoop gp toks [] s)"
proof -
  obtain opps s' where t: "tokenLoop gp toks [] s = (opps, s')"
    by (cases "tokenLoop gp toks [] s")
  have "filter (\<lambda>opp. - profitEstimate opp = - v) (sort_key (\<lambda>opp. - profitEstimate opp) opps) =
        filter (\<lambda>opp. - profitEstimate opp = - v) opps"
    by (rule sort_key_stable)
  then show ?thesis using t by (simp add: findArbitrageOpportunities_def)
qed

theorem scan_sorted_witness:
  "map profitEstimate (fst (findArbitrageOpportunities listOracle [''SOL''] [100, 101, 103])) =
     [3 * 0.997, 2 * 0.997, 1 * 0.997] \<and>
   map dexB (fst (findArbitrageOpportunities listOracle [''SOL''] [100, 101, 103])) =
     [''orca'', ''orca'', ''raydium'']"
  using scan_sorted [of listOracle "[''SOL'']" "[100, 101, 103]"]
  by (simp add: findArbitrageOpportunities_def dexes_def listOracle_def considerPair_def
        priceDiffPercent_def js_div_def assessArbitrageRisk_def Let_def)

text \<open>
  Claim C10.  For \<open>priceDiff \<ge> 0\<close>, \<open>assessArbitrageRisk\<close> returns
  \<open>0.3 + min(priceDiff / 10, 0.4) + 0.2\<close>, a value between \<open>0.5\<close> and \<open>0.9\<close>: the clamp at
  \<open>1.0\<close> does not bind.  Every opportunity \<open>findArbitrageOpportunities\<close> returns has
  \<open>risk \<ge> 0.5\<close>, so the cycle's condition for executing the first of them, which asks
  \<open>risk < 0.5\<close>, never holds.
\<close>

theorem risk_floor:
  "(0 \<le> diff \<longrightarrow>
      0.5 \<le> assessArbitrageRisk tok a b diff \<and> assessArbitrageRisk tok a b diff \<le> 0.9 \<and>
      assessArbitrageRisk tok a b diff = 0.3 + min (diff / 10) 0.4 + 0.2) \<and>
   (\<forall>opp \<in> set (fst (findArbitrageOpportunities gp tokens s)). 0.5 \<le> risk opp) \<and>
   \<not> attemptsArbitrage (fst (findArbitrageOpportunities gp tokens s)) bal minBalance"
proof -
  have r: "\<forall>opp \<in> set (fst (findArbitrageOpportunities gp tokens s)).
      0.5 \<le> risk opp \<and> risk opp \<le> 0.9"
    by (rule find_all) (rule considerPair_risk)
  have "\<not> attemptsArbitrage (fst (findArbitrageOpportunities gp tokens s)) bal minBalance"
  proof (cases "fst (findArbitrageOpportunities gp tokens s)")
    case Nil
    then show ?thesis by (simp add: attemptsArbitrage_def)
  next
    case (Cons best others)
    then have "0.5 \<le> risk best" using r by simp
    then show ?thesis using Cons by (simp add: attemptsArbitrage_def Let_def)
  qed
  moreover have "0 \<le> diff \<longrightarrow>
      0.5 \<le> assessArbitrageRisk tok a b diff \<and> assessArbitrageRisk tok a b diff \<le> 0.9 \<and>
      assessArbitrageRisk tok a b diff = 0.3 + min (diff / 10) 0.4 + 0.2"
    using assess_bounds [of diff tok a b] by blast
  moreover have "\<forall>opp \<in> set (fst (findArbitrageOpportunities gp tokens s)). 0.5 \<le> risk opp"
    using r by blast
  ultimately show ?thesis by blast
qed

theorem risk_floor_witness:
  "assessArbitrageRisk ''SOL'' ''jupiter'' ''raydium'' 0.6 = 0.56 \<and>
   map risk (fst (findArbitrageOpportunities listOracle [''SOL''] [100, 100.6, 0])) = [0.56] \<and>
   \<not> attemptsArbitrage (fst (findArbitrageOpportunities listOracle [''SOL''] [100, 100.6, 0])) 10 0.1"
  using risk_floor [of "0.6" "''SOL''" "''jupiter''" "''raydium''" listOracle "[''SOL'']" "[100, 100.6, 0]" 10 "0.1"]
  by (simp add: findArbitrageOpportunities_def dexes_def listOracle_def considerPair_def
        priceDiffPercent_def js_div_def assessArbitrageRisk_def Let_def)

section \<open>Properties of the execution\<close>

text \<open>
  Claim C8.  When the two prices \<open>executeArbitrage\<close> fetches give
  \<open>(|priceA - priceB| / ((priceA + priceB) / 2)) * 100 < 0.3\<close>, it returns
  \<open>success: false\<close> with an error message and no transaction reference, having called
  \<open>executeSwap\<close> not once; only the price service has moved on, by the two fetches.
\<close>

theorem reverification_guard:
  assumes "gp (token opp) (dexA opp) (priceService w) = (pa, o1)"
    and "gp (token opp) (dexB opp) o1 = (pb, o2)"
    and "js_lt (priceDiffPercent pa pb) 0.3"
  shows "success (fst (executeArbitrage gp env opp amount w)) = False \<and>
         error (fst (executeArbitrage gp env opp amount w)) =
           Some (if pa = 0 \<or> pb = 0 then ''Price data unavailable for one or both DEXs''
                 else ''Arbitrage opportunity no longer viable'') \<and>
         txHash1 (fst (executeArbitrage gp env opp amount w)) = None \<and>
         txHash2 (fst (executeArbitrage gp env opp amount w)) = None \<and>
         actualProfit (fst (executeArbitrage gp env opp amount w)) = None \<and>
         swapCalls (snd (executeArbitrage gp env opp amount w)) = swapCalls w \<and>
         snd (executeArbitrage gp env opp amount w) = w\<lparr>priceService := o2\<rparr>"
  using assms by (simp add: executeArbitrage_def failure_def Let_def)

theorem reverification_guard_witness:
  "js_lt (priceDiffPercent 100 100.2) 0.3 \<and>
   fst (executeArbitrage listOracle simulated staleOpportunity 0.5
          \<lparr>priceService = [100, 100.2], swapCalls = []\<rparr>) =
     \<lparr>success = False, txHash1 = None, txHash2 = None, actualProfit = None,
      error = Some ''Arbitrage opportunity no longer viable''\<rparr> \<and>
   swapCalls (snd (executeArbitrage listOracle simulated staleOpportunity 0.5
          \<lparr>priceService = [100, 100.2], swapCalls = []\<rparr>)) = []"
proof -
  have a: "listOracle (token staleOpportunity) (dexA staleOpportunity)
      (priceService \<lparr>priceService = [100, 100.2], swapCalls = []\<rparr>) = (100, [100.2])"
    by (simp add: listOracle_def)
  have b: "listOracle (token staleOpportunity) (dexB staleOpportunity) [100.2] = (100.2, [])"
    by (simp add: listOracle_def)
  have c: "js_lt (priceDiffPercent 100 100.2) 0.3"
    by (simp add: priceDiffPercent_def js_div_def Let_def)
  show ?thesis
    using reverification_guard [of listOracle staleOpportunity
        "\<lparr>priceService = [100, 100.2], swapCalls = []\<rparr>" 100 "[100.2]" "100.2" "[]"
        simulated "0.5"] a b c
    by (cases "fst (executeArbitrage listOracle simulated staleOpportunity 0.5
          \<lparr>priceService = [100, 100.2], swapCalls = []\<rparr>)") simp
qed

text \<open>
  The other outcomes of \<open>executeArbitrage\<close>.  A price of \<open>0\<close> is refused before any swap.
  Success needs the simulated payment mode, has made exactly two calls of
  \<open>executeSwap\<close> and reports the positive net profit
  \<open>amount * 0.995 / buyPrice * 0.997 * sellPrice - amount\<close>.  Every failure carries an
  error message and no second transaction reference.
\<close>

theorem execution_outcomes:
  assumes "gp (token opp) (dexA opp) (priceService w) = (pa, o1)"
    and "gp (token opp) (dexB opp) o1 = (pb, o2)"
  shows "(pa = 0 \<or> pb = 0 \<longrightarrow>
            executeArbitrage gp env opp amount w =
              (failure ''Price data unavailable for one or both DEXs'', w\<lparr>priceService := o2\<rparr>)) \<and>
         (success (fst (executeArbitrage gp env opp amount w)) \<longrightarrow>
            paymentMode env = ''simulated'' \<and>
            length (swapCalls (snd (executeArbitrage gp env opp amount w))) = length (swapCalls w) + 2 \<and>
            actualProfit (fst (executeArbitrage gp env opp amount w)) =
              Some (amount * (1 - 0.005) / min pa pb * (1 - 0.003) * max pa pb - amount) \<and>
            0 < amount * (1 - 0.005) / min pa pb * (1 - 0.003) * max pa pb - amount) \<and>
         (\<not> success (fst (executeArbitrage gp env opp amount w)) \<longrightarrow>
            error (fst (executeArbitrage gp env opp amount w)) \<noteq> None \<and>
            txHash2 (fst (executeArbitrage gp env opp amount w)) = None)"
  using assms
  by (auto simp: executeArbitrage_def executeSwap_def failure_def missing_def Let_def min_def max_def
      split: if_splits)

theorem execution_outcomes_witness:
  "success (fst (executeArbitrage listOracle simulated staleOpportunity 0.5
      \<lparr>priceService = [100, 102], swapCalls = []\<rparr>)) \<and>
   length (swapCalls (snd (executeArbitrage listOracle simulated staleOpportunity 0.5
      \<lparr>priceService = [100, 102], swapCalls = []\<rparr>))) = 2 \<and>
   actualProfit (fst (executeArbitrage listOracle simulated staleOpportunity 0.5
      \<lparr>priceService = [100, 102], swapCalls = []\<rparr>)) = Some (118553 / 20000000) \<and>
   fst (executeArbitrage listOracle simulated staleOpportunity 0.5
      \<lparr>priceService = [0, 102], swapCalls = []\<rparr>) =
     failure ''Price data unavailable for one or both DEXs''"
proof -
  have a: "listOracle (token staleOpportunity) (dexA staleOpportunity)
      (priceService \<lparr>priceService = [100, 102], swapCalls = []\<rparr>) = (100, [102])"
    by (simp add: listOracle_def)
  have b: "listOracle (token staleOpportunity) (dexB staleOpportunity) [102] = (102, [])"
    by (simp add: listOracle_def)
  have c: "listOracle (token staleOpportunity) (dexA staleOpportunity)
      (priceService \<lparr>priceService = [0, 102], swapCalls = []\<rparr>) = (0, [102])"
    by (simp add: listOracle_def)
  have ok: "success (fst (executeArbitrage listOracle simulated staleOpportunity 0.5
      \<lparr>priceService = [100, 102], swapCalls = []\<rparr>))"
    by (simp add: executeArbitrage_def executeSwap_def missing_def paymentMode_def
        simulated_def staleOpportunity_def listOracle_def priceDiffPercent_def js_div_def Let_def)
  show ?thesis
    using execution_outcomes [of listOracle staleOpportunity
        "\<lparr>priceService = [100, 102], swapCalls = []\<rparr>" 100 "[102]" 102 "[]" simulated "0.5"]
      execution_outcomes [of listOracle staleOpportunity
        "\<lparr>priceService = [0, 102], swapCalls = []\<rparr>" 0 "[102]" 102 "[]" simulated "0.5"]
      a b c ok
    by simp
qed

end
